theory Spec2Isabelle
  imports Complex_Main "HOL-Library.Multiset"
begin

section \<open>DepMap correlation notebook: data model\<close>

text \<open>
  The program is the notebook \<^verbatim>\<open>notebooks/DepMap Analysis - old.ipynb\<close>: a
  sequence of cells over pandas objects. A float64 cell is either NaN or a finite
  number; finite numbers are read as reals (comparison and absolute value are exact
  on floats); infinities are left out. The arithmetic of the correlation is a
  parameter, so that what is proved of it holds of float64 arithmetic with its
  rounding, overflow and underflow. Labels and file contents are ASCII text.
\<close>

datatype float64 = NaN | Num real

type_synonym label = string

text \<open>A DataFrame: row labels, column labels, and the cells row by row.\<close>

record frame =
  index :: "label list"
  columns :: "label list"
  cells :: "float64 list list"

text \<open>
  A Series over a two-level MultiIndex, as \<^verbatim>\<open>DataFrame.unstack\<close> returns it:
  the labels each level knows (kept by every selection) and the entries in order.
\<close>

record series =
  level0 :: "label list"
  level1 :: "label list"
  items :: "((label \<times> label) \<times> float64) list"

datatype error =
  FileNotFoundError string
  | OSError string
  | KeyError "string list"

datatype 'a file_state = Missing | Unreadable | Present 'a

text \<open>
  The disk as each reader sees it: delimited tables, HDF stores (key to table) and
  text files, each by path.
\<close>

record disk =
  csv_files :: "string \<Rightarrow> frame file_state"
  hdf_files :: "string \<Rightarrow> (string \<rightharpoonup> frame) file_state"
  text_files :: "string \<Rightarrow> string file_state"

definition well_shaped :: "frame \<Rightarrow> bool" where
  "well_shaped df \<longleftrightarrow>
     length (cells df) = length (index df) \<and>
     list_all (\<lambda>row. length row = length (columns df)) (cells df)"

section \<open>Float comparisons\<close>

text \<open>\<^verbatim>\<open>x != c\<close>, \<^verbatim>\<open>abs(x)\<close> and \<^verbatim>\<open>x > c\<close> on a float64 cell: NaN differs from
  everything, has NaN as absolute value, and is greater than nothing.\<close>

fun ne_float :: "float64 \<Rightarrow> real \<Rightarrow> bool" where
  "ne_float NaN c = True"
| "ne_float (Num x) c = (x \<noteq> c)"

fun abs_float :: "float64 \<Rightarrow> float64" where
  "abs_float NaN = NaN"
| "abs_float (Num x) = Num \<bar>x\<bar>"

fun gt_float :: "float64 \<Rightarrow> real \<Rightarrow> bool" where
  "gt_float NaN c = False"
| "gt_float (Num x) c = (x > c)"

section \<open>Loader\<close>

definition open_file :: "(string \<Rightarrow> 'a file_state) \<Rightarrow> string \<Rightarrow> error + 'a" where
  "open_file files path =
     (case files path of
        Missing \<Rightarrow> Inl (FileNotFoundError path)
      | Unreadable \<Rightarrow> Inl (OSError path)
      | Present x \<Rightarrow> Inr x)"

definition read_csv :: "disk \<Rightarrow> string \<Rightarrow> error + frame" where
  "read_csv d path = open_file (csv_files d) path"

definition column :: "frame \<Rightarrow> nat \<Rightarrow> float64 list" where
  "column df j = map (\<lambda>row. row ! j) (cells df)"

definition transpose_frame :: "frame \<Rightarrow> frame" where
  "transpose_frame df =
     \<lparr> index = columns df, columns = index df,
       cells = map (column df) [0..<length (columns df)] \<rparr>"

section \<open>Correlation\<close>

text \<open>
  The floating-point arithmetic \<^verbatim>\<open>DataFrame.corr()\<close> computes in, over a carrier
  \<open>'f\<close> of its own (which may hold infinities): a finite cell and a row count as
  floats, zero, the four operations, the square root, the test \<^verbatim>\<open>x == 0\<close>, and the
  cell a result is stored as. Nothing is assumed of the operations.
\<close>

record 'f arith =
  fval :: "real \<Rightarrow> 'f"
  fcount :: "nat \<Rightarrow> 'f"
  fzero :: "'f"
  fadd :: "'f \<Rightarrow> 'f \<Rightarrow> 'f"
  fsub :: "'f \<Rightarrow> 'f \<Rightarrow> 'f"
  fmul :: "'f \<Rightarrow> 'f \<Rightarrow> 'f"
  fdiv :: "'f \<Rightarrow> 'f \<Rightarrow> 'f"
  fsqrt :: "'f \<Rightarrow> 'f"
  fis_zero :: "'f \<Rightarrow> bool"
  fcell :: "'f \<Rightarrow> float64"

text \<open>A running sum \<^verbatim>\<open>s += v\<close> from zero, in row order.\<close>

definition fsum :: "'f arith \<Rightarrow> 'f list \<Rightarrow> 'f" where
  "fsum ar vs = foldl (fadd ar) (fzero ar) vs"

text \<open>
  \<^verbatim>\<open>DataFrame.corr()\<close> (Pearson, \<^verbatim>\<open>min_periods = 1\<close>): for each pair of
  columns, only the rows where both cells are numbers are used; fewer than one such
  row, or a zero divisor, gives NaN. The means are taken first, then the three sums
  of products of the deviations.
\<close>

fun valid_pairs :: "float64 list \<Rightarrow> float64 list \<Rightarrow> (real \<times> real) list" where
  "valid_pairs (Num x # xs) (Num y # ys) = (x, y) # valid_pairs xs ys"
| "valid_pairs (_ # xs) (_ # ys) = valid_pairs xs ys"
| "valid_pairs _ _ = []"

definition pearson :: "'f arith \<Rightarrow> float64 list \<Rightarrow> float64 list \<Rightarrow> float64" where
  "pearson ar xs ys =
     (let ps = valid_pairs xs ys; nobs = length ps in
      if nobs < 1 then NaN
      else
        let meanx = fdiv ar (fsum ar (map (\<lambda>(x, y). fval ar x) ps)) (fcount ar nobs);
            meany = fdiv ar (fsum ar (map (\<lambda>(x, y). fval ar y) ps)) (fcount ar nobs);
            devs = map (\<lambda>(x, y). (fsub ar (fval ar x) meanx, fsub ar (fval ar y) meany)) ps;
            sumx = fsum ar (map (\<lambda>(vx, vy). fmul ar vx vy) devs);
            sumxx = fsum ar (map (\<lambda>(vx, vy). fmul ar vx vx) devs);
            sumyy = fsum ar (map (\<lambda>(vx, vy). fmul ar vy vy) devs);
            divisor = fsqrt ar (fmul ar sumxx sumyy)
        in if \<not> fis_zero ar divisor then fcell ar (fdiv ar sumx divisor) else NaN)"

text \<open>
  The coefficient of columns \<open>xi\<close> and \<open>yi\<close> is computed once, for \<open>yi \<le> xi\<close>, and
  stored at both \<open>(xi, yi)\<close> and \<open>(yi, xi)\<close>.
\<close>

definition corr_frame :: "'f arith \<Rightarrow> frame \<Rightarrow> frame" where
  "corr_frame ar df =
     (let k = length (columns df) in
      \<lparr> index = columns df, columns = columns df,
        cells = map (\<lambda>i. map (\<lambda>j. if j \<le> i then pearson ar (column df i) (column df j)
                                     else pearson ar (column df j) (column df i))
                             [0..<k]) [0..<k] \<rparr>)"

section \<open>Correlation cache\<close>

definition read_hdf :: "disk \<Rightarrow> string \<Rightarrow> string \<Rightarrow> error + frame" where
  "read_hdf d path key =
     (case open_file (hdf_files d) path of
        Inl e \<Rightarrow> Inl e
      | Inr store \<Rightarrow>
          (case store key of
             None \<Rightarrow> Inl (KeyError [key])
           | Some df \<Rightarrow> Inr df))"

text \<open>\<^verbatim>\<open>to_hdf\<close> opens the store in append mode: a missing file is created, the
  table under the key is replaced, other keys stay.\<close>

definition to_hdf :: "disk \<Rightarrow> frame \<Rightarrow> string \<Rightarrow> string \<Rightarrow> error + disk" where
  "to_hdf d df path key =
     (case hdf_files d path of
        Unreadable \<Rightarrow> Inl (OSError path)
      | Missing \<Rightarrow>
          Inr (d\<lparr>hdf_files := (hdf_files d)(path := Present [key \<mapsto> df])\<rparr>)
      | Present store \<Rightarrow>
          Inr (d\<lparr>hdf_files := (hdf_files d)(path := Present (store(key \<mapsto> df)))\<rparr>))"

definition recalculate :: bool where
  "recalculate = False"

definition correlation_cache ::
  "'f arith \<Rightarrow> bool \<Rightarrow> disk \<Rightarrow> frame \<Rightarrow> error + (frame \<times> disk)" where
  "correlation_cache ar recalc d data =
     (if recalc then
        (let corr = corr_frame ar data in
         case to_hdf d corr ''correlations.h5'' ''correlations'' of
           Inl e \<Rightarrow> Inl e
         | Inr d' \<Rightarrow> Inr (corr, d'))
      else
        (case read_hdf d ''correlations.h5'' ''correlations'' of
           Inl e \<Rightarrow> Inl e
         | Inr corr \<Rightarrow> Inr (corr, d)))"

section \<open>Pair filter\<close>

text \<open>\<^verbatim>\<open>corr.unstack()\<close>: one entry per cell, column by column, keyed by
  (column label, row label).\<close>

definition unstack :: "frame \<Rightarrow> series" where
  "unstack df =
     \<lparr> level0 = columns df, level1 = index df,
       items = concat (map (\<lambda>j. map (\<lambda>i. ((columns df ! j, index df ! i), cells df ! i ! j))
                                 [0..<length (index df)])
                           [0..<length (columns df)]) \<rparr>"

text \<open>Selection by a boolean mask computed from the values; the levels stay.\<close>

definition mask :: "(float64 \<Rightarrow> bool) \<Rightarrow> series \<Rightarrow> series" where
  "mask p s = s\<lparr>items := filter (\<lambda>(k, v). p v) (items s)\<rparr>"

definition abs_series :: "series \<Rightarrow> series" where
  "abs_series s = s\<lparr>items := map (\<lambda>(k, v). (k, abs_float v)) (items s)\<rparr>"

text \<open>
  \<^verbatim>\<open>sort_values(ascending=False)\<close>: the numbers are sorted ascending and the
  result reversed; NaN entries go last. The library's sort does not fix the order of
  equal values; here equal values keep their order in the ascending pass.
\<close>

fun is_nan :: "float64 \<Rightarrow> bool" where
  "is_nan NaN = True"
| "is_nan (Num x) = False"

fun num_of :: "float64 \<Rightarrow> real" where
  "num_of NaN = 0"
| "num_of (Num x) = x"

definition sort_values_desc :: "series \<Rightarrow> series" where
  "sort_values_desc s =
     (let good = filter (\<lambda>(k, v). \<not> is_nan v) (items s);
          bad = filter (\<lambda>(k, v). is_nan v) (items s)
      in s\<lparr>items := rev (sort_key (\<lambda>(k, v). num_of v) good) @ bad\<rparr>)"

definition large_corr_of :: "frame \<Rightarrow> series" where
  "large_corr_of corr =
     (let corr_list = unstack corr;
          large_corr = mask (\<lambda>v. ne_float v 1) corr_list;
          large_corr = mask (\<lambda>v. gt_float (abs_float v) (1/2)) large_corr
      in large_corr)"

definition sort_corrs_of :: "frame \<Rightarrow> series" where
  "sort_corrs_of corr = sort_values_desc (abs_series (large_corr_of corr))"

section \<open>Gene-list subsetter\<close>

definition LF :: char where "LF = CHR 0x0A"
definition CR :: char where "CR = CHR 0x0D"

text \<open>Text mode: \<^verbatim>\<open>\r\n\<close> and a lone \<^verbatim>\<open>\r\<close> are read as \<^verbatim>\<open>\n\<close>.\<close>

fun universal_newlines :: "string \<Rightarrow> string" where
  "universal_newlines [] = []"
| "universal_newlines [c] = [if c = CR then LF else c]"
| "universal_newlines (c # d # cs) =
     (if c = CR \<and> d = LF then LF # universal_newlines cs
      else if c = CR then LF # universal_newlines (d # cs)
      else c # universal_newlines (d # cs))"

text \<open>\<^verbatim>\<open>f.readlines()\<close>: the lines, each with its newline when it has one.\<close>

fun split_lines :: "string \<Rightarrow> string list" where
  "split_lines [] = []"
| "split_lines (c # cs) =
     (if c = LF then [c] # split_lines cs
      else (case split_lines cs of
              [] \<Rightarrow> [[c]]
            | l # ls \<Rightarrow> (c # l) # ls))"

definition readlines :: "disk \<Rightarrow> string \<Rightarrow> error + string list" where
  "readlines d path =
     (case open_file (text_files d) path of
        Inl e \<Rightarrow> Inl e
      | Inr content \<Rightarrow> Inr (split_lines (universal_newlines content)))"

text \<open>\<^verbatim>\<open>str.strip()\<close> and \<^verbatim>\<open>str.upper()\<close> on ASCII text.\<close>

definition is_space :: "char \<Rightarrow> bool" where
  "is_space c \<longleftrightarrow> (let n = (of_char c :: nat) in (9 \<le> n \<and> n \<le> 13) \<or> (28 \<le> n \<and> n \<le> 32))"

definition strip :: "string \<Rightarrow> string" where
  "strip s = rev (dropWhile is_space (rev (dropWhile is_space s)))"

definition is_lower :: "char \<Rightarrow> bool" where
  "is_lower c \<longleftrightarrow> (let n = (of_char c :: nat) in 97 \<le> n \<and> n \<le> 122)"

definition upper_char :: "char \<Rightarrow> char" where
  "upper_char c = (if is_lower c then char_of ((of_char c :: nat) - 32) else c)"

definition upper :: "string \<Rightarrow> string" where
  "upper s = map upper_char s"

text \<open>The loop over the lines of the metabolic gene file, appending to
  \<^verbatim>\<open>metab_genes\<close>.\<close>

fun metab_loop :: "frame \<Rightarrow> string list \<Rightarrow> label list \<Rightarrow> label list" where
  "metab_loop data [] metab_genes = metab_genes"
| "metab_loop data (line # lines) metab_genes =
     (let gene_name = upper (strip line) in
      if gene_name \<in> set (columns data)
      then metab_loop data lines (metab_genes @ [gene_name])
      else metab_loop data lines metab_genes)"

definition gene_lists :: "disk \<Rightarrow> frame \<Rightarrow> error + (label list \<times> label list)" where
  "gene_lists d data =
     (case readlines d ''prior_genes.txt'' of
        Inl e \<Rightarrow> Inl e
      | Inr plines \<Rightarrow>
          (let prior_genes = map strip plines in
           case readlines d ''metabolic_genes.txt'' of
             Inl e \<Rightarrow> Inl e
           | Inr mlines \<Rightarrow> Inr (prior_genes, metab_loop data mlines [])))"

text \<open>
  \<^verbatim>\<open>large_corr[metab_genes]\<close>: a list of labels selects on the first level of the
  MultiIndex; a label the first level does not know raises KeyError. The model fixes
  which entries are selected; it keeps them in the order of the series and takes the
  list of labels as a set.
\<close>

definition getitem_labels :: "series \<Rightarrow> label list \<Rightarrow> error + series" where
  "getitem_labels s keys =
     (let unknown = filter (\<lambda>k. k \<notin> set (level0 s)) keys in
      if unknown \<noteq> [] then Inl (KeyError unknown)
      else Inr (s\<lparr>items := filter (\<lambda>((i, j), v). i \<in> set keys) (items s)\<rparr>))"

section \<open>The notebook\<close>

text \<open>The variables a run leaves behind, and the cells in order; an error raised in a
  cell ends the run.\<close>

record results =
  data :: frame
  corr :: frame
  large_corr :: series
  sort_corrs :: series
  prior_genes :: "label list"
  metab_genes :: "label list"
  prior_corrs :: series

definition loader :: "disk \<Rightarrow> error + frame" where
  "loader d =
     (case read_csv d ''portal-Avana-2018-06-08.csv'' of
        Inl e \<Rightarrow> Inl e
      | Inr raw \<Rightarrow> Inr (transpose_frame raw))"

definition notebook :: "'f arith \<Rightarrow> bool \<Rightarrow> disk \<Rightarrow> error + results" where
  "notebook ar recalc d =
     (case loader d of
        Inl e \<Rightarrow> Inl e
      | Inr dat \<Rightarrow>
     (case correlation_cache ar recalc d dat of
        Inl e \<Rightarrow> Inl e
      | Inr (cor, d') \<Rightarrow>
     (let large = large_corr_of cor;
          srt = sort_corrs_of cor in
      case gene_lists d' dat of
        Inl e \<Rightarrow> Inl e
      | Inr (prior, metab) \<Rightarrow>
     (case getitem_labels large metab of
        Inl e \<Rightarrow> Inl e
      | Inr pc \<Rightarrow>
          Inr \<lparr> data = dat, corr = cor, large_corr = large, sort_corrs = srt,
                prior_genes = prior, metab_genes = metab, prior_corrs = pc \<rparr>))))"

section \<open>Properties: vocabulary and examples\<close>

text \<open>Descending order on cells as \<^verbatim>\<open>sort_values(ascending=False)\<close> leaves them:
  larger numbers first, NaN after every number.\<close>

fun float_ge :: "float64 \<Rightarrow> float64 \<Rightarrow> bool" where
  "float_ge (Num x) (Num y) = (x \<ge> y)"
| "float_ge NaN (Num y) = False"
| "float_ge v NaN = True"

text \<open>
  A correlation matrix in the sense of the data model: square with the same unique
  labels on both axes, symmetric, and 1.0 on the diagonal.
\<close>

definition is_correlation_matrix :: "frame \<Rightarrow> bool" where
  "is_correlation_matrix c \<longleftrightarrow>
     well_shaped c \<and> index c = columns c \<and> distinct (columns c) \<and>
     (let n = length (columns c) in
      list_all (\<lambda>i. list_all (\<lambda>j. cells c ! i ! j = cells c ! j ! i) [0..<n]) [0..<n] \<and>
      list_all (\<lambda>i. cells c ! i ! i = Num 1) [0..<n])"

text \<open>The three-gene example: A-B = 0.6, A-C = 0.2, B-C = -0.7.\<close>

definition example_corr :: frame where
  "example_corr =
     \<lparr> index = [''A'', ''B'', ''C''], columns = [''A'', ''B'', ''C''],
       cells = [[Num 1, Num (6/10), Num (2/10)],
                [Num (6/10), Num 1, Num (-7/10)],
                [Num (2/10), Num (-7/10), Num 1]] \<rparr>"

text \<open>Two genes with identical profiles: every correlation is exactly 1.0.\<close>

definition perfect_pair :: frame where
  "perfect_pair =
     \<lparr> index = [''A'', ''B''], columns = [''A'', ''B''],
       cells = [[Num 1, Num 1], [Num 1, Num 1]] \<rparr>"

text \<open>
  The conditions the claims name for a correlation matrix, without the uniqueness of
  the labels: square, symmetric, 1.0 on the diagonal. A matrix with these and a
  repeated label.
\<close>

definition square_symmetric_unit_diagonal :: "frame \<Rightarrow> bool" where
  "square_symmetric_unit_diagonal c \<longleftrightarrow>
     well_shaped c \<and> index c = columns c \<and>
     (let n = length (columns c) in
      list_all (\<lambda>i. list_all (\<lambda>j. cells c ! i ! j = cells c ! j ! i) [0..<n]) [0..<n] \<and>
      list_all (\<lambda>i. cells c ! i ! i = Num 1) [0..<n])"

definition repeated_label :: frame where
  "repeated_label =
     \<lparr> index = [''A'', ''A''], columns = [''A'', ''A''],
       cells = [[Num 1, Num (6/10)], [Num (6/10), Num 1]] \<rparr>"



text \<open>
  Arithmetic without rounding. float64 arithmetic agrees with it wherever the exact
  result of an operation is a float64 number, as for every operation on the small
  integers of the tables below.
\<close>

definition exact_arith :: "real arith" where
  "exact_arith =
     \<lparr> fval = (\<lambda>x. x), fcount = real, fzero = 0,
       fadd = (+), fsub = (-), fmul = (*), fdiv = (/), fsqrt = sqrt,
       fis_zero = (\<lambda>x. x = 0), fcell = Num \<rparr>"



text \<open>A small essentiality table as the file has it (genes by cell lines), and a disk
  holding it, a cached correlation matrix, and the two gene lists.\<close>

definition example_raw :: frame where
  "example_raw =
     \<lparr> index = [''A'', ''B'', ''C''], columns = [''CL1'', ''CL2''],
       cells = [[Num 0, Num 1], [Num 1, Num 3], [Num 2, Num 0]] \<rparr>"

definition example_disk :: disk where
  "example_disk =
     \<lparr> csv_files = (\<lambda>p. Missing)(''portal-Avana-2018-06-08.csv'' := Present example_raw),
       hdf_files = (\<lambda>p. Missing)(''correlations.h5'' := Present [''correlations'' \<mapsto> example_corr]),
       text_files = (\<lambda>p. Missing)
         (''prior_genes.txt'' := Present ''B\<newline>'',
          ''metabolic_genes.txt'' := Present '' a\<newline>x\<newline>C \<newline>'') \<rparr>"

text \<open>The example disk with one of its files missing: the cache, the table, the prior gene
  list, the metabolic gene list.\<close>

definition no_cache_disk :: disk where
  "no_cache_disk = example_disk\<lparr>hdf_files := (\<lambda>p. Missing)\<rparr>"

definition no_csv_disk :: disk where
  "no_csv_disk = example_disk\<lparr>csv_files := (\<lambda>p. Missing)\<rparr>"

definition no_prior_disk :: disk where
  "no_prior_disk = example_disk\<lparr>text_files := (\<lambda>p. Missing)\<rparr>"

definition no_metab_disk :: disk where
  "no_metab_disk =
     example_disk\<lparr>text_files := (\<lambda>p. Missing)(''prior_genes.txt'' := Present ''B\<newline>'')\<rparr>"

text \<open>What the notebook computes on the example disk.\<close>

definition example_results :: results where
  "example_results =
     \<lparr> data = transpose_frame example_raw, corr = example_corr,
       large_corr =
         \<lparr> level0 = [''A'', ''B'', ''C''], level1 = [''A'', ''B'', ''C''],
           items = [((''A'', ''B''), Num (6/10)), ((''B'', ''A''), Num (6/10)),
                    ((''B'', ''C''), Num (-7/10)), ((''C'', ''B''), Num (-7/10))] \<rparr>,
       sort_corrs =
         \<lparr> level0 = [''A'', ''B'', ''C''], level1 = [''A'', ''B'', ''C''],
           items = [((''C'', ''B''), Num (7/10)), ((''B'', ''C''), Num (7/10)),
                    ((''B'', ''A''), Num (6/10)), ((''A'', ''B''), Num (6/10))] \<rparr>,
       prior_genes = [''B''], metab_genes = [''A'', ''C''],
       prior_corrs =
         \<lparr> level0 = [''A'', ''B'', ''C''], level1 = [''A'', ''B'', ''C''],
           items = [((''A'', ''B''), Num (6/10)), ((''C'', ''B''), Num (-7/10))] \<rparr> \<rparr>"

section \<open>Pair filter: proofs\<close>

lemma map_Pair_nth:
  "map (\<lambda>i. (a, xs ! i)) [0..<length xs] = map (Pair a) xs"
  by (rule nth_equalityI) simp_all

lemma items_unstack_keys:
  "map fst (items (unstack df)) = List.product (columns df) (index df)"
proof -
  have "map fst (items (unstack df)) =
        concat (map (\<lambda>j. map (\<lambda>i. (columns df ! j, index df ! i)) [0..<length (index df)])
                    [0..<length (columns df)])"
    by (simp add: unstack_def map_concat comp_def)
  also have "\<dots> = concat (map (\<lambda>j. map (Pair (columns df ! j)) (index df)) [0..<length (columns df)])"
    by (simp only: map_Pair_nth)
  also have "\<dots> = concat (map (\<lambda>x. map (Pair x) (index df)) (map (\<lambda>j. columns df ! j) [0..<length (columns df)]))"
    by (simp only: map_map comp_def)
  also have "\<dots> = List.product (columns df) (index df)"
    by (simp only: map_nth product_concat_map)
  finally show ?thesis .
qed

lemma in_items_unstack:
  "((a, b), v) \<in> set (items (unstack df)) \<longleftrightarrow>
     (\<exists>i j. i < length (index df) \<and> j < length (columns df) \<and>
            a = columns df ! j \<and> b = index df ! i \<and> v = cells df ! i ! j)"
proof
  assume "((a, b), v) \<in> set (items (unstack df))"
  then obtain j i where "j < length (columns df)" "i < length (index df)"
    "((a, b), v) = ((columns df ! j, index df ! i), cells df ! i ! j)"
    by (auto simp: unstack_def)
  then show "\<exists>i j. i < length (index df) \<and> j < length (columns df) \<and>
            a = columns df ! j \<and> b = index df ! i \<and> v = cells df ! i ! j"
    by blast
next
  assume "\<exists>i j. i < length (index df) \<and> j < length (columns df) \<and>
            a = columns df ! j \<and> b = index df ! i \<and> v = cells df ! i ! j"
  then obtain i j where "i < length (index df)" "j < length (columns df)"
     "a = columns df ! j" "b = index df ! i" "v = cells df ! i ! j" by blast
  then show "((a, b), v) \<in> set (items (unstack df))"
    by (force simp: unstack_def)
qed

lemma items_large_corr_of:
  "items (large_corr_of c) =
     filter (\<lambda>(k, v). ne_float v 1 \<and> gt_float (abs_float v) (1/2)) (items (unstack c))"
  by (simp add: large_corr_of_def mask_def Let_def case_prod_unfold conj_commute)

lemma kept_value:
  "ne_float v 1 \<and> gt_float (abs_float v) (1/2) \<longleftrightarrow> (\<exists>x. v = Num x \<and> x \<noteq> 1 \<and> \<bar>x\<bar> > 1/2)"
  by (cases v) auto

lemma mset_items_sort_values_desc:
  "mset (items (sort_values_desc s)) = mset (items s)"
proof -
  have "mset (filter (\<lambda>(k, v). \<not> is_nan v) (items s)) + mset (filter (\<lambda>(k, v). is_nan v) (items s))
        = mset (items s)"
    by (induction "items s" arbitrary: s) (auto simp: case_prod_unfold)
  then show ?thesis
    by (simp add: sort_values_desc_def Let_def case_prod_unfold)
qed

lemma float_ge_num:
  "\<not> is_nan a \<Longrightarrow> \<not> is_nan b \<Longrightarrow> float_ge b a \<longleftrightarrow> num_of a \<le> num_of b"
  by (cases a; cases b) simp_all

lemma float_ge_nan: "is_nan b \<Longrightarrow> float_ge a b"
  by (cases b) simp_all

lemma sorted_items_sort_values_desc:
  "sorted_wrt (\<lambda>x y. float_ge (snd x) (snd y)) (items (sort_values_desc s))"
proof -
  let ?good = "filter (\<lambda>(k, v). \<not> is_nan v) (items s)"
  let ?bad = "filter (\<lambda>(k, v). is_nan v) (items s)"
  let ?f = "\<lambda>(k :: label \<times> label, v). num_of v"
  have "sorted (map ?f (sort_key ?f ?good))" by (rule sorted_sort_key)
  then have "sorted_wrt (\<lambda>x y. ?f x \<le> ?f y) (sort_key ?f ?good)"
    by (simp add: sorted_map)
  then have "sorted_wrt (\<lambda>x y. float_ge (snd y) (snd x)) (sort_key ?f ?good)"
    by (rule sorted_wrt_mono_rel[rotated]) (auto simp: float_ge_num)
  then have 1: "sorted_wrt (\<lambda>x y. float_ge (snd x) (snd y)) (rev (sort_key ?f ?good))"
    by (simp add: sorted_wrt_rev)
  have 2: "sorted_wrt (\<lambda>x y. float_ge (snd x) (snd y)) ?bad"
    by (rule sorted_wrt_mono_rel[where P = "\<lambda>x y. True"]) (auto simp: float_ge_nan)
  have 3: "\<forall>x \<in> set (rev (sort_key ?f ?good)). \<forall>y \<in> set ?bad. float_ge (snd x) (snd y)"
    by (auto simp: float_ge_nan)
  show ?thesis
    using 1 2 3 by (simp add: sort_values_desc_def Let_def sorted_wrt_append)
qed

lemma set_items_sort_values_desc:
  "set (items (sort_values_desc s)) = set (items s)"
  using mset_items_sort_values_desc [of s] by (metis set_mset_mset)

lemma keys_abs_series: "map fst (items (abs_series s)) = map fst (items s)"
  by (simp add: abs_series_def case_prod_unfold comp_def)

lemma distinct_keys_sort_values_desc:
  "distinct (map fst (items (sort_values_desc s))) \<longleftrightarrow> distinct (map fst (items s))"
proof -
  have "mset (map fst (items (sort_values_desc s))) = mset (map fst (items s))"
    using mset_items_sort_values_desc [of s] by (metis mset_map)
  then show ?thesis by (rule mset_eq_imp_distinct_iff)
qed

lemma distinct_keys_large_corr_of:
  assumes "distinct (columns c)" "distinct (index c)"
  shows "distinct (map fst (items (large_corr_of c)))"
proof -
  have "distinct (map fst (items (unstack c)))"
    using assms by (simp add: items_unstack_keys distinct_product)
  then show ?thesis
    by (simp add: items_large_corr_of distinct_map_filter)
qed

lemma in_items_large_corr_of:
  "((a, b), v) \<in> set (items (large_corr_of c)) \<longleftrightarrow>
     (\<exists>i j x. i < length (index c) \<and> j < length (columns c) \<and>
            a = columns c ! j \<and> b = index c ! i \<and> cells c ! i ! j = Num x \<and>
            x \<noteq> 1 \<and> \<bar>x\<bar> > 1/2 \<and> v = Num x)"
  (is "?L \<longleftrightarrow> ?R")
proof
  assume ?L
  then have u: "((a, b), v) \<in> set (items (unstack c))"
    and k: "\<exists>x. v = Num x \<and> x \<noteq> 1 \<and> \<bar>x\<bar> > 1/2"
    by (simp_all add: items_large_corr_of kept_value)
  from k obtain x where x: "v = Num x" "x \<noteq> 1" "\<bar>x\<bar> > 1/2" by blast
  from u obtain i j where "i < length (index c)" "j < length (columns c)"
    "a = columns c ! j" "b = index c ! i" "v = cells c ! i ! j"
    unfolding in_items_unstack by blast
  with x show ?R by auto
next
  assume ?R
  then obtain i j x where ij: "i < length (index c)" "j < length (columns c)"
    "a = columns c ! j" "b = index c ! i" "cells c ! i ! j = Num x"
    and x: "x \<noteq> 1" "\<bar>x\<bar> > 1/2" "v = Num x" by blast
  from ij x have "((a, b), v) \<in> set (items (unstack c))"
    unfolding in_items_unstack by (intro exI[of _ i] exI[of _ j]) simp
  with x show ?L
    by (simp add: items_large_corr_of)
qed

lemma in_items_sort_corrs_of:
  "((a, b), w) \<in> set (items (sort_corrs_of c)) \<longleftrightarrow>
     (\<exists>i j x. i < length (index c) \<and> j < length (columns c) \<and>
            a = columns c ! j \<and> b = index c ! i \<and> cells c ! i ! j = Num x \<and>
            x \<noteq> 1 \<and> \<bar>x\<bar> > 1/2 \<and> w = Num \<bar>x\<bar>)"
  (is "?L \<longleftrightarrow> ?R")
proof -
  have "?L \<longleftrightarrow> (\<exists>v. ((a, b), v) \<in> set (items (large_corr_of c)) \<and> w = abs_float v)"
    by (force simp: sort_corrs_of_def set_items_sort_values_desc abs_series_def image_iff)
  also have "\<dots> \<longleftrightarrow> ?R"
  proof
    assume "\<exists>v. ((a, b), v) \<in> set (items (large_corr_of c)) \<and> w = abs_float v"
    then obtain v where "((a, b), v) \<in> set (items (large_corr_of c))" "w = abs_float v"
      by blast
    then obtain i j x where "i < length (index c)" "j < length (columns c)"
      "a = columns c ! j" "b = index c ! i" "cells c ! i ! j = Num x"
      "x \<noteq> 1" "\<bar>x\<bar> > 1/2" "w = Num \<bar>x\<bar>"
      unfolding in_items_large_corr_of by auto
    then show ?R by (intro exI[of _ i] exI[of _ j] exI[of _ x]) simp
  next
    assume ?R
    then obtain i j x where ij: "i < length (index c)" "j < length (columns c)"
      "a = columns c ! j" "b = index c ! i" "cells c ! i ! j = Num x"
      "x \<noteq> 1" "\<bar>x\<bar> > 1/2" and w: "w = Num \<bar>x\<bar>" by blast
    from ij have "((a, b), Num x) \<in> set (items (large_corr_of c))"
      unfolding in_items_large_corr_of by (intro exI[of _ i] exI[of _ j] exI[of _ x]) simp
    moreover have "w = abs_float (Num x)" using w by simp
    ultimately show "\<exists>v. ((a, b), v) \<in> set (items (large_corr_of c)) \<and> w = abs_float v"
      by blast
  qed
  finally show ?thesis .
qed

lemma correlation_matrixD:
  assumes "is_correlation_matrix c"
  shows "index c = columns c" "distinct (columns c)"
    "\<And>i j. i < length (columns c) \<Longrightarrow> j < length (columns c) \<Longrightarrow> cells c ! i ! j = cells c ! j ! i"
    "\<And>i. i < length (columns c) \<Longrightarrow> cells c ! i ! i = Num 1"
  using assms by (simp_all add: is_correlation_matrix_def Let_def list_all_iff)

lemma items_sort_corrs_example:
  "items (sort_corrs_of example_corr) =
     [((''C'', ''B''), Num (7/10)), ((''B'', ''C''), Num (7/10)),
      ((''B'', ''A''), Num (6/10)), ((''A'', ''B''), Num (6/10))]"
  by (simp add: sort_corrs_of_def sort_values_desc_def abs_series_def large_corr_of_def
      mask_def unstack_def example_corr_def)

lemma is_correlation_matrix_example: "is_correlation_matrix example_corr"
  by (simp add: is_correlation_matrix_def well_shaped_def example_corr_def)

lemma is_correlation_matrix_perfect_pair: "is_correlation_matrix perfect_pair"
  by (simp add: is_correlation_matrix_def well_shaped_def perfect_pair_def)

lemma pair_filter_labels_differ:
  assumes "is_correlation_matrix c"
    and "\<exists>i j x. i < length (columns c) \<and> j < length (columns c) \<and>
            a = columns c ! j \<and> b = columns c ! i \<and> cells c ! i ! j = Num x \<and>
            x \<noteq> 1 \<and> 1/2 < \<bar>x\<bar> \<and> w = Num \<bar>x\<bar>"
  shows "a \<noteq> b"
proof
  note cm = correlation_matrixD [OF assms(1)]
  assume ab: "a = b"
  from assms(2) obtain i j x where ij: "i < length (columns c)" "j < length (columns c)"
     "a = columns c ! j" "b = columns c ! i" "cells c ! i ! j = Num x" "x \<noteq> 1" by blast
  with ab cm(2) have "j = i" by (simp add: nth_eq_iff_index_eq)
  with ij cm(4) [of i] show False by simp
qed

lemma is_correlation_matrix_iff:
  "is_correlation_matrix c \<longleftrightarrow> square_symmetric_unit_diagonal c \<and> distinct (columns c)"
  by (auto simp: is_correlation_matrix_def square_symmetric_unit_diagonal_def)

text \<open>
  Counterexample to C2 as stated: \<open>repeated_label\<close> is square, symmetric and has 1.0
  on its diagonal, and its two columns carry the same label; the off-diagonal entry 0.6
  is returned as a pair of that label with itself.
\<close>

theorem pair_filter_repeated_label:
  "square_symmetric_unit_diagonal repeated_label \<and>
   ((''A'', ''A''), Num (6/10)) \<in> set (items (sort_corrs_of repeated_label))"
  by (simp add: square_symmetric_unit_diagonal_def well_shaped_def sort_corrs_of_def
      sort_values_desc_def abs_series_def large_corr_of_def mask_def unstack_def
      repeated_label_def)

text \<open>
  Claim C2, amended. For every input matrix the pair filter returns no pair whose
  absolute correlation is 0.5 or less: every entry of \<^verbatim>\<open>sort_corrs\<close> carries a number
  above 0.5, and every entry of \<^verbatim>\<open>large_corr\<close> a number whose absolute value is above
  0.5. For every input matrix that is square, symmetric and has 1.0 on its diagonal, and
  whose labels are unique, it returns no pair whose two labels are identical.
\<close>

theorem pair_filter_excludes:
  "(((a, b), w) \<in> set (items (sort_corrs_of c)) \<longrightarrow>
      (\<exists>x. w = Num x \<and> 1/2 < x) \<and>
      (square_symmetric_unit_diagonal c \<and> distinct (columns c) \<longrightarrow> a \<noteq> b)) \<and>
   (((a, b), w) \<in> set (items (large_corr_of c)) \<longrightarrow>
      (\<exists>x. w = Num x \<and> 1/2 < \<bar>x\<bar>) \<and>
      (square_symmetric_unit_diagonal c \<and> distinct (columns c) \<longrightarrow> a \<noteq> b))"
proof -
  have neq: "columns c ! j \<noteq> columns c ! i"
    if "is_correlation_matrix c" "i < length (columns c)" "j < length (columns c)"
      "cells c ! i ! j = Num x" "x \<noteq> 1"
    for i j x
  proof
    note cm = correlation_matrixD [OF that(1)]
    assume "columns c ! j = columns c ! i"
    with that cm(2) have "j = i" by (simp add: nth_eq_iff_index_eq)
    with that cm(4) [of i] show False by simp
  qed
  have srt: "(\<exists>x. w = Num x \<and> 1/2 < x) \<and> (is_correlation_matrix c \<longrightarrow> a \<noteq> b)"
    if "((a, b), w) \<in> set (items (sort_corrs_of c))"
  proof -
    from that obtain i j x where ij: "i < length (index c)" "j < length (columns c)"
      "a = columns c ! j" "b = index c ! i" "cells c ! i ! j = Num x"
      "x \<noteq> 1" "1/2 < \<bar>x\<bar>" "w = Num \<bar>x\<bar>"
      unfolding in_items_sort_corrs_of by blast
    then have "\<exists>x. w = Num x \<and> 1/2 < x" by simp
    moreover have "a \<noteq> b" if cm: "is_correlation_matrix c"
      using neq [OF cm, of i j x] ij correlation_matrixD(1) [OF cm] by simp
    ultimately show ?thesis by blast
  qed
  have lrg: "(\<exists>x. w = Num x \<and> 1/2 < \<bar>x\<bar>) \<and> (is_correlation_matrix c \<longrightarrow> a \<noteq> b)"
    if "((a, b), w) \<in> set (items (large_corr_of c))"
  proof -
    from that obtain i j x where ij: "i < length (index c)" "j < length (columns c)"
      "a = columns c ! j" "b = index c ! i" "cells c ! i ! j = Num x"
      "x \<noteq> 1" "1/2 < \<bar>x\<bar>" "w = Num x"
      unfolding in_items_large_corr_of by blast
    then have "\<exists>x. w = Num x \<and> 1/2 < \<bar>x\<bar>" by simp
    moreover have "a \<noteq> b" if cm: "is_correlation_matrix c"
      using neq [OF cm, of i j x] ij correlation_matrixD(1) [OF cm] by simp
    ultimately show ?thesis by blast
  qed
  from srt lrg show ?thesis
    unfolding is_correlation_matrix_iff by blast
qed

text \<open>Witness for C2 (amended): the pair (C, B) of the three-gene example.\<close>

theorem pair_filter_excludes_witness:
  "square_symmetric_unit_diagonal example_corr \<and> distinct (columns example_corr) \<and>
   ((''C'', ''B''), Num (7/10)) \<in> set (items (sort_corrs_of example_corr)) \<and>
   ''C'' \<noteq> ''B'' \<and> (\<exists>x. Num (7/10) = Num x \<and> 1/2 < x)"
  using pair_filter_excludes [of "''C''" "''B''" "Num (7/10)" example_corr]
    is_correlation_matrix_example
  by (simp add: items_sort_corrs_example is_correlation_matrix_iff)

text \<open>
  Claim C3. For the three-gene matrix (A-B = 0.6, A-C = 0.2, B-C = -0.7, diagonal 1.0)
  the filtered list contains (B, C, 0.7) and (A, B, 0.6), the first at an earlier
  position than the second, no pair of A with C, and no pair of a label with itself.
\<close>

theorem pair_filter_example:
  "let out = items (sort_corrs_of example_corr) in
     ((''B'', ''C''), Num (7/10)) \<in> set out \<and>
     ((''A'', ''B''), Num (6/10)) \<in> set out \<and>
     (\<exists>i j. i < j \<and> j < length out \<and>
            out ! i = ((''B'', ''C''), Num (7/10)) \<and> out ! j = ((''A'', ''B''), Num (6/10))) \<and>
     list_all (\<lambda>((a, b), w). a \<noteq> b \<and> (a, b) \<noteq> (''A'', ''C'') \<and> (a, b) \<noteq> (''C'', ''A'')) out"
proof -
  let ?out = "items (sort_corrs_of example_corr)"
  have 1: "((''B'', ''C''), Num (7/10)) \<in> set ?out"
    and 2: "((''A'', ''B''), Num (6/10)) \<in> set ?out"
    and 4: "list_all (\<lambda>((a, b), w). a \<noteq> b \<and> (a, b) \<noteq> (''A'', ''C'') \<and> (a, b) \<noteq> (''C'', ''A'')) ?out"
    by (simp_all add: items_sort_corrs_example)
  have 3: "\<exists>i j. i < j \<and> j < length ?out \<and>
            ?out ! i = ((''B'', ''C''), Num (7/10)) \<and> ?out ! j = ((''A'', ''B''), Num (6/10))"
    by (rule exI[of _ 1], rule exI[of _ 3]) (simp add: items_sort_corrs_example)
  from 1 2 3 4 show ?thesis
    unfolding Let_def by (intro conjI)
qed

text \<open>
  Counterexample to C1 as stated: in \<open>perfect_pair\<close> the labels A and B differ and
  their correlation 1.0 has absolute value above 0.5, yet the pair is not in the
  output, because the filter drops every entry equal to 1.0 whatever its labels.
\<close>

theorem pair_filter_drops_perfect_pairs:
  "is_correlation_matrix perfect_pair \<and>
   columns perfect_pair ! 1 = ''B'' \<and> index perfect_pair ! 0 = ''A'' \<and>
   cells perfect_pair ! 0 ! 1 = Num 1 \<and> ''B'' \<noteq> ''A'' \<and> (1/2 :: real) < \<bar>1\<bar> \<and>
   ((''B'', ''A''), Num \<bar>1\<bar>) \<notin> set (items (sort_corrs_of perfect_pair))"
  by (simp add: is_correlation_matrix_perfect_pair)
     (simp add: sort_corrs_of_def sort_values_desc_def abs_series_def large_corr_of_def
      mask_def unstack_def perfect_pair_def)

text \<open>
  Claim C1, amended. On a correlation matrix the output of the pair filter consists of
  exactly the ordered pairs of distinct labels whose correlation is not exactly 1.0 and
  has absolute value strictly above 0.5; both orientations of a pair are present; no
  pair occurs twice; each pair carries the absolute value of its correlation; and the
  entries are in descending order of that value.
\<close>

theorem pair_filter_exact:
  assumes "is_correlation_matrix c"
  shows "(\<forall>a b w. ((a, b), w) \<in> set (items (sort_corrs_of c)) \<longleftrightarrow>
            a \<noteq> b \<and>
            (\<exists>i j x. i < length (columns c) \<and> j < length (columns c) \<and>
                   a = columns c ! j \<and> b = columns c ! i \<and>
                   cells c ! i ! j = Num x \<and> x \<noteq> 1 \<and> 1/2 < \<bar>x\<bar> \<and> w = Num \<bar>x\<bar>)) \<and>
         (\<forall>a b w. ((a, b), w) \<in> set (items (sort_corrs_of c)) \<longrightarrow>
            ((b, a), w) \<in> set (items (sort_corrs_of c))) \<and>
         distinct (map fst (items (sort_corrs_of c))) \<and>
         sorted_wrt (\<lambda>p q. float_ge (snd p) (snd q)) (items (sort_corrs_of c))"
proof (intro conjI allI)
  note cm = correlation_matrixD [OF assms]
  fix a b w
  show "((a, b), w) \<in> set (items (sort_corrs_of c)) \<longleftrightarrow>
            a \<noteq> b \<and>
            (\<exists>i j x. i < length (columns c) \<and> j < length (columns c) \<and>
                   a = columns c ! j \<and> b = columns c ! i \<and>
                   cells c ! i ! j = Num x \<and> x \<noteq> 1 \<and> 1/2 < \<bar>x\<bar> \<and> w = Num \<bar>x\<bar>)"
    using pair_filter_labels_differ [OF assms, of a b w]
    unfolding in_items_sort_corrs_of cm(1) by blast
  show "((a, b), w) \<in> set (items (sort_corrs_of c)) \<longrightarrow>
            ((b, a), w) \<in> set (items (sort_corrs_of c))"
  proof
    assume "((a, b), w) \<in> set (items (sort_corrs_of c))"
    then obtain i j x where ij: "i < length (columns c)" "j < length (columns c)"
      "a = columns c ! j" "b = columns c ! i" "cells c ! i ! j = Num x"
      "x \<noteq> 1" "1/2 < \<bar>x\<bar>" "w = Num \<bar>x\<bar>"
      unfolding in_items_sort_corrs_of cm(1) by blast
    from ij cm(3) [of j i] have "cells c ! j ! i = Num x" by simp
    with ij show "((b, a), w) \<in> set (items (sort_corrs_of c))"
      unfolding in_items_sort_corrs_of cm(1)
      by (intro exI[of _ j] exI[of _ i] exI[of _ x]) simp
  qed
next
  note cm = correlation_matrixD [OF assms]
  show "distinct (map fst (items (sort_corrs_of c)))"
    using distinct_keys_large_corr_of [of c] cm(1,2)
    by (simp add: sort_corrs_of_def distinct_keys_sort_values_desc keys_abs_series)
next
  show "sorted_wrt (\<lambda>p q. float_ge (snd p) (snd q)) (items (sort_corrs_of c))"
    unfolding sort_corrs_of_def by (rule sorted_items_sort_values_desc)
qed

text \<open>Witness for C1 (amended): the three-gene example, with both orientations of B-C.\<close>

theorem pair_filter_exact_witness:
  "is_correlation_matrix example_corr \<and>
   ((''C'', ''B''), Num (7/10)) \<in> set (items (sort_corrs_of example_corr)) \<and>
   ((''B'', ''C''), Num (7/10)) \<in> set (items (sort_corrs_of example_corr)) \<and>
   distinct (map fst (items (sort_corrs_of example_corr))) \<and>
   sorted_wrt (\<lambda>p q. float_ge (snd p) (snd q)) (items (sort_corrs_of example_corr))"
  using pair_filter_exact [OF is_correlation_matrix_example]
  by (simp add: items_sort_corrs_example is_correlation_matrix_example)


section \<open>Correlation: proofs\<close>








section \<open>Gene-list subsetter: proofs\<close>

lemma metab_loop_eq:
  "metab_loop dat lines acc =
     acc @ filter (\<lambda>g. g \<in> set (columns dat)) (map (\<lambda>l. upper (strip l)) lines)"
  by (induction lines arbitrary: acc) (simp_all add: Let_def)

lemma upper_char_not_lower: "\<not> is_lower (upper_char c)"
proof (cases "is_lower c")
  case True
  then have "97 \<le> (of_char c :: nat)" "(of_char c :: nat) \<le> 122"
    by (simp_all add: is_lower_def Let_def)
  then have "(of_char (char_of ((of_char c :: nat) - 32)) :: nat) = of_char c - 32"
    by simp
  with True \<open>(of_char c :: nat) \<le> 122\<close> show ?thesis
    by (simp add: upper_char_def is_lower_def Let_def)
next
  case False
  then show ?thesis by (simp add: upper_char_def)
qed

lemma upper_no_lower: "ch \<in> set (upper s) \<Longrightarrow> \<not> is_lower ch"
  by (auto simp: upper_def upper_char_not_lower)

lemma gene_lists_Inr:
  assumes "gene_lists d dat = Inr (prior, metab)"
  obtains plines mlines where
    "readlines d ''prior_genes.txt'' = Inr plines" "prior = map strip plines"
    "readlines d ''metabolic_genes.txt'' = Inr mlines" "metab = metab_loop dat mlines []"
  using assms by (auto simp: gene_lists_def Let_def split: sum.splits)

lemma readlines_example:
  "readlines example_disk ''metabolic_genes.txt'' = Inr ['' a\<newline>'', ''x\<newline>'', ''C \<newline>'']"
  by (simp add: readlines_def open_file_def example_disk_def LF_def CR_def)

lemma upper_strip_example:
  "map (\<lambda>l. upper (strip l)) ['' a\<newline>'', ''x\<newline>'', ''C \<newline>''] = [''A'', ''X'', ''C'']"
  by (simp add: upper_def strip_def upper_char_def is_lower_def is_space_def char_of_eq_iff)

lemma columns_example: "columns (transpose_frame example_raw) = [''A'', ''B'', ''C'']"
  by (simp add: transpose_frame_def example_raw_def)

lemma gene_lists_example:
  "gene_lists example_disk (transpose_frame example_raw) = Inr ([''B''], [''A'', ''C''])"
proof -
  have p: "readlines example_disk ''prior_genes.txt'' = Inr [''B\<newline>'']"
    by (simp add: readlines_def open_file_def example_disk_def LF_def CR_def)
  have s: "strip ''B\<newline>'' = ''B''"
    by (simp add: strip_def is_space_def)
  have m: "metab_loop (transpose_frame example_raw) ['' a\<newline>'', ''x\<newline>'', ''C \<newline>''] [] = [''A'', ''C'']"
    unfolding metab_loop_eq upper_strip_example columns_example by simp
  show ?thesis
    by (simp add: gene_lists_def p readlines_example s m del: metab_loop.simps)
qed

text \<open>
  Counterexample to C5 as stated: the file holds the line \<^verbatim>\<open> a\<close>; the subsetter returns
  \<^verbatim>\<open>A\<close>, which is a column label but neither a line of the file nor a stripped line of it.
\<close>

theorem gene_lists_not_in_file:
  "gene_lists example_disk (transpose_frame example_raw) = Inr ([''B''], [''A'', ''C'']) \<and>
   readlines example_disk ''metabolic_genes.txt'' = Inr ['' a\<newline>'', ''x\<newline>'', ''C \<newline>''] \<and>
   ''A'' \<notin> set ['' a\<newline>'', ''x\<newline>'', ''C \<newline>''] \<and>
   ''A'' \<notin> set (map strip ['' a\<newline>'', ''x\<newline>'', ''C \<newline>''])"
proof -
  have "map strip ['' a\<newline>'', ''x\<newline>'', ''C \<newline>''] = [''a'', ''x'', ''C'']"
    by (simp add: strip_def is_space_def)
  then show ?thesis
    by (simp add: gene_lists_example readlines_example)
qed

text \<open>
  Claim C5, amended. Every gene name the subsetter returns is a column label of the data
  matrix and is the upper-cased, whitespace-stripped form of a line of the gene list file.
\<close>

theorem gene_lists_subset:
  assumes "gene_lists d dat = Inr (prior, metab)"
  shows "\<exists>lines. readlines d ''metabolic_genes.txt'' = Inr lines \<and>
           (\<forall>g \<in> set metab. g \<in> set (columns dat) \<and> (\<exists>l \<in> set lines. g = upper (strip l)))"
proof -
  from assms obtain mlines where
    "readlines d ''metabolic_genes.txt'' = Inr mlines" "metab = metab_loop dat mlines []"
    by (rule gene_lists_Inr)
  then show ?thesis by (auto simp: metab_loop_eq)
qed

text \<open>
  Witness for C5 (amended): the example disk.
\<close>

theorem gene_lists_subset_witness:
  "gene_lists example_disk (transpose_frame example_raw) = Inr ([''B''], [''A'', ''C'']) \<and>
   (\<exists>lines. readlines example_disk ''metabolic_genes.txt'' = Inr lines \<and>
       ''A'' \<in> set (columns (transpose_frame example_raw)) \<and>
       (\<exists>l. l \<in> set lines \<and> ''A'' = upper (strip l)))"
  using gene_lists_subset [OF gene_lists_example] gene_lists_example by auto

text \<open>
  Claim C9. The subsetter upper-cases each stripped line before the column test: a name is
  retained exactly when it is a column label and the upper-cased stripped form of some
  line; no retained name has a lowercase letter; and every line whose upper-cased stripped
  form is a column label is retained in that form.
\<close>

theorem gene_lists_uppercase:
  assumes "gene_lists d dat = Inr (prior, metab)"
    and "readlines d ''metabolic_genes.txt'' = Inr lines"
  shows "(\<forall>g. g \<in> set metab \<longleftrightarrow>
            g \<in> set (columns dat) \<and> (\<exists>l \<in> set lines. g = upper (strip l))) \<and>
         (\<forall>g \<in> set metab. \<forall>ch \<in> set g. \<not> is_lower ch) \<and>
         (\<forall>l \<in> set lines. upper (strip l) \<in> set (columns dat) \<longrightarrow> upper (strip l) \<in> set metab)"
proof -
  from assms(1) obtain mlines where
    "readlines d ''metabolic_genes.txt'' = Inr mlines" "metab = metab_loop dat mlines []"
    by (rule gene_lists_Inr)
  with assms(2) have m: "metab = filter (\<lambda>g. g \<in> set (columns dat)) (map (\<lambda>l. upper (strip l)) lines)"
    by (simp add: metab_loop_eq)
  show ?thesis
    unfolding m by (auto simp: upper_no_lower)
qed

text \<open>
  Witness for C9: the lowercase line \<^verbatim>\<open> a\<close> is retained as \<^verbatim>\<open>A\<close>; the line \<^verbatim>\<open>x\<close> is not
  retained.
\<close>

theorem gene_lists_uppercase_witness:
  "gene_lists example_disk (transpose_frame example_raw) = Inr ([''B''], [''A'', ''C'']) \<and>
   readlines example_disk ''metabolic_genes.txt'' = Inr ['' a\<newline>'', ''x\<newline>'', ''C \<newline>''] \<and>
   upper (strip '' a\<newline>'') = ''A'' \<and>
   ''A'' \<in> set (columns (transpose_frame example_raw)) \<and> ''A'' \<in> set [''A'', ''C''] \<and>
   \<not> is_lower CHR ''A'' \<and>
   upper (strip ''x\<newline>'') \<notin> set (columns (transpose_frame example_raw)) \<and>
   upper (strip ''x\<newline>'') \<notin> set [''A'', ''C'']"
proof -
  have "upper (strip '' a\<newline>'') = ''A''" "upper (strip ''x\<newline>'') = ''X''"
    using upper_strip_example by simp_all
  moreover have "\<not> is_lower CHR ''A''" by (simp add: is_lower_def)
  ultimately show ?thesis
    using gene_lists_uppercase [OF gene_lists_example readlines_example]
    by (simp add: gene_lists_example readlines_example columns_example)
qed

section \<open>Cache, failures and subsetting: proofs\<close>

lemma read_csv_example:
  "read_csv example_disk ''portal-Avana-2018-06-08.csv'' = Inr example_raw"
  by (simp add: read_csv_def open_file_def example_disk_def)

lemma read_hdf_example:
  "read_hdf example_disk ''correlations.h5'' ''correlations'' = Inr example_corr"
  by (simp add: read_hdf_def open_file_def example_disk_def)

lemma loader_example: "loader example_disk = Inr (transpose_frame example_raw)"
  by (simp add: loader_def read_csv_example)

lemma correlation_cache_off:
  "correlation_cache ar False d dat =
     (case read_hdf d ''correlations.h5'' ''correlations'' of
        Inl e \<Rightarrow> Inl e | Inr c \<Rightarrow> Inr (c, d))"
  by (simp add: correlation_cache_def)

text \<open>
  Counterexample to C6 as stated: with no cache file on disk the cell, run with the flag
  as the notebook sets it, does not compute the matrix; it fails on the missing file.
\<close>

theorem correlation_cache_missing_file:
  "hdf_files no_cache_disk ''correlations.h5'' = Missing \<and>
   correlation_cache exact_arith recalculate no_cache_disk (transpose_frame example_raw) =
     Inl (FileNotFoundError ''correlations.h5'')"
  by (simp add: correlation_cache_def recalculate_def read_hdf_def open_file_def no_cache_disk_def)

text \<open>
  Claim C6, amended. The notebook sets the flag \<^verbatim>\<open>recalculate\<close> to False. With the flag
  off the cell returns exactly what reading the cache file under the fixed key returns:
  the stored matrix when there is one, the read error otherwise, and nothing is computed.
  With the flag on it computes the matrix over the transposed table whatever the disk
  holds, and stores it under the key, leaving the other files as they are.
\<close>

theorem correlation_cache_follows_flag:
  "\<not> recalculate \<and>
   (\<not> recalc \<and> read_hdf d ''correlations.h5'' ''correlations'' = Inr c \<longrightarrow>
      correlation_cache ar recalc d dat = Inr (c, d)) \<and>
   (\<not> recalc \<and> read_hdf d ''correlations.h5'' ''correlations'' = Inl e \<longrightarrow>
      correlation_cache ar recalc d dat = Inl e) \<and>
   (recalc \<and> hdf_files d ''correlations.h5'' \<noteq> Unreadable \<longrightarrow>
      (\<exists>d'. correlation_cache ar recalc d dat = Inr (corr_frame ar dat, d') \<and>
            read_hdf d' ''correlations.h5'' ''correlations'' = Inr (corr_frame ar dat) \<and>
            csv_files d' = csv_files d \<and> text_files d' = text_files d))"
proof (intro conjI impI)
  show "\<not> recalculate" by (simp add: recalculate_def)
next
  assume "\<not> recalc \<and> read_hdf d ''correlations.h5'' ''correlations'' = Inr c"
  then show "correlation_cache ar recalc d dat = Inr (c, d)"
    by (simp add: correlation_cache_def)
next
  assume "\<not> recalc \<and> read_hdf d ''correlations.h5'' ''correlations'' = Inl e"
  then show "correlation_cache ar recalc d dat = Inl e"
    by (simp add: correlation_cache_def)
next
  assume a: "recalc \<and> hdf_files d ''correlations.h5'' \<noteq> Unreadable"
  then obtain d' where d': "to_hdf d (corr_frame ar dat) ''correlations.h5'' ''correlations'' = Inr d'"
    by (cases "hdf_files d ''correlations.h5''") (simp_all add: to_hdf_def)
  then have "read_hdf d' ''correlations.h5'' ''correlations'' = Inr (corr_frame ar dat)"
    "csv_files d' = csv_files d" "text_files d' = text_files d"
    by (cases "hdf_files d ''correlations.h5''";
        auto simp: to_hdf_def read_hdf_def open_file_def)+
  moreover from a d' have "correlation_cache ar recalc d dat = Inr (corr_frame ar dat, d')"
    by (simp add: correlation_cache_def)
  ultimately show "\<exists>d'. correlation_cache ar recalc d dat = Inr (corr_frame ar dat, d') \<and>
            read_hdf d' ''correlations.h5'' ''correlations'' = Inr (corr_frame ar dat) \<and>
            csv_files d' = csv_files d \<and> text_files d' = text_files d"
    by blast
qed

text \<open>
  Witness for C6 (amended): flag off with and without a cache file, flag on with one.
\<close>

theorem correlation_cache_follows_flag_witness:
  "correlation_cache exact_arith False example_disk (transpose_frame example_raw) = Inr (example_corr, example_disk) \<and>
   correlation_cache exact_arith False no_cache_disk (transpose_frame example_raw) =
     Inl (FileNotFoundError ''correlations.h5'') \<and>
   (\<exists>d'. correlation_cache exact_arith True example_disk (transpose_frame example_raw) =
           Inr (corr_frame exact_arith (transpose_frame example_raw), d') \<and>
         read_hdf d' ''correlations.h5'' ''correlations'' = Inr (corr_frame exact_arith (transpose_frame example_raw)))"
proof -
  have 1: "read_hdf no_cache_disk ''correlations.h5'' ''correlations'' =
      Inl (FileNotFoundError ''correlations.h5'')"
    by (simp add: read_hdf_def open_file_def no_cache_disk_def)
  have 2: "hdf_files example_disk ''correlations.h5'' \<noteq> Unreadable"
    by (simp add: example_disk_def)
  show ?thesis
    using correlation_cache_follows_flag [where ar = exact_arith and recalc = False
        and d = example_disk and c = example_corr and dat = "transpose_frame example_raw"]
      correlation_cache_follows_flag [where ar = exact_arith and recalc = False
        and d = no_cache_disk and dat = "transpose_frame example_raw"
        and e = "FileNotFoundError ''correlations.h5''"]
      correlation_cache_follows_flag [where ar = exact_arith and recalc = True
        and d = example_disk and dat = "transpose_frame example_raw"]
      read_hdf_example 1 2
    by auto
qed

text \<open>
  Claim C7. Over the store, writing a matrix under a key of a cache file succeeds unless
  the file cannot be opened, and reading that key of that file back afterwards yields
  the matrix written, cell for cell; so it does for the notebook's file
  \<^verbatim>\<open>correlations.h5\<close> and key \<^verbatim>\<open>correlations\<close>. The store holds tables as they
  are; the binary encoding of the file is the library's and is not part of the model.
\<close>

theorem cache_round_trip:
  "(hdf_files d path \<noteq> Unreadable \<longrightarrow> (\<exists>d'. to_hdf d c path key = Inr d')) \<and>
   (to_hdf d c path key = Inr d' \<longrightarrow> read_hdf d' path key = Inr c)"
proof (intro conjI impI)
  assume "hdf_files d path \<noteq> Unreadable"
  then show "\<exists>d'. to_hdf d c path key = Inr d'"
    by (cases "hdf_files d path") (simp_all add: to_hdf_def)
next
  assume "to_hdf d c path key = Inr d'"
  then show "read_hdf d' path key = Inr c"
    by (cases "hdf_files d path") (auto simp: to_hdf_def read_hdf_def open_file_def)
qed

text \<open>Witness for C7: the three-gene matrix written to a disk without a cache file, and
  written over the cache of the example disk.\<close>

theorem cache_round_trip_witness:
  "hdf_files no_cache_disk ''correlations.h5'' \<noteq> Unreadable \<and>
   (\<exists>d'. to_hdf no_cache_disk example_corr ''correlations.h5'' ''correlations'' = Inr d' \<and>
         read_hdf d' ''correlations.h5'' ''correlations'' = Inr example_corr) \<and>
   hdf_files example_disk ''correlations.h5'' \<noteq> Unreadable \<and>
   (\<exists>d'. to_hdf example_disk perfect_pair ''correlations.h5'' ''correlations'' = Inr d' \<and>
         read_hdf d' ''correlations.h5'' ''correlations'' = Inr perfect_pair)"
proof -
  have 1: "hdf_files no_cache_disk ''correlations.h5'' \<noteq> Unreadable"
    and 2: "hdf_files example_disk ''correlations.h5'' \<noteq> Unreadable"
    by (simp_all add: no_cache_disk_def example_disk_def)
  from 1 obtain d1 where d1:
    "to_hdf no_cache_disk example_corr ''correlations.h5'' ''correlations'' = Inr d1"
    using cache_round_trip [of no_cache_disk "''correlations.h5''" example_corr "''correlations''"]
    by blast
  from 2 obtain d2 where d2:
    "to_hdf example_disk perfect_pair ''correlations.h5'' ''correlations'' = Inr d2"
    using cache_round_trip [of example_disk "''correlations.h5''" perfect_pair "''correlations''"]
    by blast
  have "read_hdf d1 ''correlations.h5'' ''correlations'' = Inr example_corr"
    using cache_round_trip [of no_cache_disk "''correlations.h5''" example_corr "''correlations''" d1] d1
    by blast
  moreover have "read_hdf d2 ''correlations.h5'' ''correlations'' = Inr perfect_pair"
    using cache_round_trip [of example_disk "''correlations.h5''" perfect_pair "''correlations''" d2] d2
    by blast
  ultimately show ?thesis using 1 2 d1 d2 by blast
qed

text \<open>
  Claim C8. Whatever error opening a file raises (missing file or I/O failure) at the
  table loader, at the cache reader, or at either gene list, the run ends with that very
  error: it is not caught, retried or converted.
\<close>

theorem notebook_aborts_on_read_failure:
  "(open_file (csv_files d) ''portal-Avana-2018-06-08.csv'' = Inl e \<longrightarrow>
      notebook ar recalculate d = Inl e) \<and>
   (read_csv d ''portal-Avana-2018-06-08.csv'' = Inr raw \<and>
    open_file (hdf_files d) ''correlations.h5'' = Inl e \<longrightarrow>
      notebook ar recalculate d = Inl e) \<and>
   (read_csv d ''portal-Avana-2018-06-08.csv'' = Inr raw \<and>
    read_hdf d ''correlations.h5'' ''correlations'' = Inr c \<and>
    open_file (text_files d) ''prior_genes.txt'' = Inl e \<longrightarrow>
      notebook ar recalculate d = Inl e) \<and>
   (read_csv d ''portal-Avana-2018-06-08.csv'' = Inr raw \<and>
    read_hdf d ''correlations.h5'' ''correlations'' = Inr c \<and>
    readlines d ''prior_genes.txt'' = Inr plines \<and>
    open_file (text_files d) ''metabolic_genes.txt'' = Inl e \<longrightarrow>
      notebook ar recalculate d = Inl e)"
proof (intro conjI impI)
  assume "open_file (csv_files d) ''portal-Avana-2018-06-08.csv'' = Inl e"
  then show "notebook ar recalculate d = Inl e"
    by (simp add: notebook_def loader_def read_csv_def)
next
  assume "read_csv d ''portal-Avana-2018-06-08.csv'' = Inr raw \<and>
    open_file (hdf_files d) ''correlations.h5'' = Inl e"
  then show "notebook ar recalculate d = Inl e"
    by (simp add: notebook_def loader_def correlation_cache_def recalculate_def read_hdf_def)
next
  assume "read_csv d ''portal-Avana-2018-06-08.csv'' = Inr raw \<and>
    read_hdf d ''correlations.h5'' ''correlations'' = Inr c \<and>
    open_file (text_files d) ''prior_genes.txt'' = Inl e"
  then show "notebook ar recalculate d = Inl e"
    by (simp add: notebook_def loader_def correlation_cache_def recalculate_def
        gene_lists_def readlines_def)
next
  assume "read_csv d ''portal-Avana-2018-06-08.csv'' = Inr raw \<and>
    read_hdf d ''correlations.h5'' ''correlations'' = Inr c \<and>
    readlines d ''prior_genes.txt'' = Inr plines \<and>
    open_file (text_files d) ''metabolic_genes.txt'' = Inl e"
  then have "gene_lists d (transpose_frame raw) = Inl e"
    by (simp add: gene_lists_def readlines_def)
  with \<open>read_csv d ''portal-Avana-2018-06-08.csv'' = Inr raw \<and> _\<close>
  show "notebook ar recalculate d = Inl e"
    by (simp add: notebook_def loader_def correlation_cache_def recalculate_def)
qed

text \<open>
  Witness for C8: four disks, each missing one of the four files.
\<close>

theorem notebook_aborts_on_read_failure_witness:
  "notebook exact_arith recalculate no_csv_disk = Inl (FileNotFoundError ''portal-Avana-2018-06-08.csv'') \<and>
   notebook exact_arith recalculate no_cache_disk = Inl (FileNotFoundError ''correlations.h5'') \<and>
   notebook exact_arith recalculate no_prior_disk = Inl (FileNotFoundError ''prior_genes.txt'') \<and>
   notebook exact_arith recalculate no_metab_disk = Inl (FileNotFoundError ''metabolic_genes.txt'')"
proof -
  have csv: "open_file (csv_files no_csv_disk) ''portal-Avana-2018-06-08.csv'' =
      Inl (FileNotFoundError ''portal-Avana-2018-06-08.csv'')"
    by (simp add: open_file_def no_csv_disk_def)
  have raw: "read_csv no_cache_disk ''portal-Avana-2018-06-08.csv'' = Inr example_raw"
    "read_csv no_prior_disk ''portal-Avana-2018-06-08.csv'' = Inr example_raw"
    "read_csv no_metab_disk ''portal-Avana-2018-06-08.csv'' = Inr example_raw"
    by (simp_all add: read_csv_def open_file_def example_disk_def no_cache_disk_def
        no_prior_disk_def no_metab_disk_def)
  have h5: "open_file (hdf_files no_cache_disk) ''correlations.h5'' =
      Inl (FileNotFoundError ''correlations.h5'')"
    by (simp add: open_file_def no_cache_disk_def)
  have cache: "read_hdf no_prior_disk ''correlations.h5'' ''correlations'' = Inr example_corr"
    "read_hdf no_metab_disk ''correlations.h5'' ''correlations'' = Inr example_corr"
    by (simp_all add: read_hdf_def open_file_def example_disk_def no_prior_disk_def
        no_metab_disk_def)
  have prior: "open_file (text_files no_prior_disk) ''prior_genes.txt'' =
      Inl (FileNotFoundError ''prior_genes.txt'')"
    by (simp add: open_file_def no_prior_disk_def)
  have plines: "readlines no_metab_disk ''prior_genes.txt'' = Inr [''B\<newline>'']"
    by (simp add: readlines_def open_file_def no_metab_disk_def LF_def CR_def)
  have metab: "open_file (text_files no_metab_disk) ''metabolic_genes.txt'' =
      Inl (FileNotFoundError ''metabolic_genes.txt'')"
    by (simp add: open_file_def no_metab_disk_def)
  show ?thesis
    using notebook_aborts_on_read_failure [where ar = exact_arith and d = no_csv_disk
        and e = "FileNotFoundError ''portal-Avana-2018-06-08.csv''"]
      notebook_aborts_on_read_failure [where ar = exact_arith and d = no_cache_disk
        and e = "FileNotFoundError ''correlations.h5''" and raw = example_raw]
      notebook_aborts_on_read_failure [where ar = exact_arith and d = no_prior_disk
        and e = "FileNotFoundError ''prior_genes.txt''" and raw = example_raw
        and c = example_corr]
      notebook_aborts_on_read_failure [where ar = exact_arith and d = no_metab_disk
        and e = "FileNotFoundError ''metabolic_genes.txt''" and raw = example_raw
        and c = example_corr and plines = "[''B\<newline>'']"]
      csv raw h5 cache prior plines metab
    by simp
qed

lemma getitem_labels_Inr:
  "getitem_labels s keys = Inr r \<longleftrightarrow>
     set keys \<subseteq> set (level0 s) \<and>
     r = s\<lparr>items := filter (\<lambda>((i, j), v). i \<in> set keys) (items s)\<rparr>"
  by (auto simp: getitem_labels_def Let_def filter_empty_conv)

lemma notebook_Inr:
  assumes "notebook ar recalc d = Inr res"
  shows "getitem_labels (large_corr res) (metab_genes res) = Inr (prior_corrs res)"
    and "large_corr res = large_corr_of (corr res)"
    and "sort_corrs res = sort_corrs_of (corr res)"
  using assms
  by (auto simp: notebook_def Let_def split: sum.splits prod.splits)

text \<open>
  Claim C10. In a run that completes, every metabolic gene is a first-level label of the
  filtered pair list, and a pair (i, j) of that list is in \<^verbatim>\<open>prior_corrs\<close> exactly when
  its first label i is in the metabolic gene list; the second label plays no part.
\<close>

theorem prior_corrs_first_label:
  assumes "notebook ar recalc d = Inr res"
  shows "set (metab_genes res) \<subseteq> set (level0 (large_corr res)) \<and>
         (\<forall>i j v. ((i, j), v) \<in> set (items (prior_corrs res)) \<longleftrightarrow>
                  ((i, j), v) \<in> set (items (large_corr res)) \<and> i \<in> set (metab_genes res))"
  using notebook_Inr(1) [OF assms] unfolding getitem_labels_Inr by auto

lemma large_corr_example:
  "large_corr_of example_corr =
     \<lparr> level0 = [''A'', ''B'', ''C''], level1 = [''A'', ''B'', ''C''],
       items = [((''A'', ''B''), Num (6/10)), ((''B'', ''A''), Num (6/10)),
                ((''B'', ''C''), Num (-7/10)), ((''C'', ''B''), Num (-7/10))] \<rparr>"
  by (simp add: large_corr_of_def mask_def unstack_def example_corr_def)

lemma sort_corrs_example:
  "sort_corrs_of example_corr =
     \<lparr> level0 = [''A'', ''B'', ''C''], level1 = [''A'', ''B'', ''C''],
       items = [((''C'', ''B''), Num (7/10)), ((''B'', ''C''), Num (7/10)),
                ((''B'', ''A''), Num (6/10)), ((''A'', ''B''), Num (6/10))] \<rparr>"
  by (simp add: sort_corrs_of_def sort_values_desc_def abs_series_def large_corr_example)

lemma notebook_example: "notebook exact_arith recalculate example_disk = Inr example_results"
proof -
  have c: "correlation_cache exact_arith recalculate example_disk (transpose_frame example_raw) =
      Inr (example_corr, example_disk)"
    by (simp add: correlation_cache_def recalculate_def read_hdf_example)
  show ?thesis
    by (simp add: notebook_def loader_example c gene_lists_example example_results_def
        large_corr_example sort_corrs_example Let_def getitem_labels_def)
qed

text \<open>
  Witness for C10: C is metabolic and B is not; (B, C) is dropped and (C, B) is kept.
\<close>

theorem prior_corrs_first_label_witness:
  "notebook exact_arith recalculate example_disk = Inr example_results \<and>
   ''C'' \<in> set (metab_genes example_results) \<and> ''B'' \<notin> set (metab_genes example_results) \<and>
   ((''B'', ''C''), Num (-7/10)) \<in> set (items (large_corr example_results)) \<and>
   ((''B'', ''C''), Num (-7/10)) \<notin> set (items (prior_corrs example_results)) \<and>
   ((''C'', ''B''), Num (-7/10)) \<in> set (items (large_corr example_results)) \<and>
   ((''C'', ''B''), Num (-7/10)) \<in> set (items (prior_corrs example_results))"
  using prior_corrs_first_label [OF notebook_example]
  by (simp add: notebook_example) (simp add: example_results_def)

end
